theory Spec2Isabelle
  imports Complex_Main "HOL-Library.Sublist"
begin

section \<open>JavaScript values used by the transaction view pipeline\<close>

text \<open>
  A JavaScript number is an IEEE binary64 value. Every finite binary64 value is a rational
  number, so a finite number is modelled by its exact rational value; \<open>NaN\<close> and the two
  infinities are separate constructors. The two zeros are identified (the code never
  divides by a zero and never inspects its sign). Which rationals are representable, and
  how a decimal string or an exact product is rounded to one, is left to the platform
  (see \<open>platform\<close> below).
\<close>

datatype jsnum = NaN | NegInf | Fin rat | PosInf

text \<open>The relational operator \<open><\<close> on numbers: false as soon as one side is \<open>NaN\<close>.\<close>

fun num_lt :: "jsnum \<Rightarrow> jsnum \<Rightarrow> bool" where
  "num_lt NaN _ = False"
| "num_lt _ NaN = False"
| "num_lt NegInf NegInf = False"
| "num_lt NegInf _ = True"
| "num_lt (Fin a) (Fin b) = (a < b)"
| "num_lt (Fin a) PosInf = True"
| "num_lt (Fin a) NegInf = False"
| "num_lt PosInf _ = False"

text \<open>\<open>a <= b\<close> and \<open>a >= b\<close>: neither side is \<open>NaN\<close> and the strict comparison the
  other way round fails.\<close>

definition num_le :: "jsnum \<Rightarrow> jsnum \<Rightarrow> bool" where
  "num_le a b = (a \<noteq> NaN \<and> b \<noteq> NaN \<and> \<not> num_lt b a)"

definition num_ge :: "jsnum \<Rightarrow> jsnum \<Rightarrow> bool" where
  "num_ge a b = (a \<noteq> NaN \<and> b \<noteq> NaN \<and> \<not> num_lt a b)"

definition isNaN :: "jsnum \<Rightarrow> bool" where
  "isNaN x = (x = NaN)"

text \<open>
  A string is a list of characters; a character outside ASCII is given by the bytes of
  its UTF-8 encoding, so that one string occurs in another as a list of bytes exactly
  when it does as text. Changing the case of a string depends on the Unicode tables of
  the engine: \<open>toLowerCase\<close> is left to the platform (see \<open>platform\<close> below).

  The relational operator \<open><\<close> on two strings compares them unit by unit; a proper
  prefix is smaller. The code applies it to status values only, which are ASCII.
\<close>

fun str_lt :: "string \<Rightarrow> string \<Rightarrow> bool" where
  "str_lt [] [] = False"
| "str_lt [] (y # ys) = True"
| "str_lt (x # xs) [] = False"
| "str_lt (x # xs) (y # ys) =
     ((of_char x :: nat) < of_char y \<or> (x = y \<and> str_lt xs ys))"

text \<open>
  \<open>toUpperCase\<close> on the ASCII letters. The code applies it to the first character of a
  status value only, which is a lower-case ASCII letter.
\<close>

definition upper_char :: "char \<Rightarrow> char" where
  "upper_char c =
     (if (97::nat) \<le> of_char c \<and> (of_char c :: nat) \<le> 122
      then char_of ((of_char c :: nat) - 32) else c)"

definition toUpperCase :: "string \<Rightarrow> string" where
  "toUpperCase s = map upper_char s"

text \<open>The decimal digits \<open>0\<close> to \<open>9\<close>.\<close>

definition is_digit :: "char \<Rightarrow> bool" where
  "is_digit c = ((48::int) \<le> of_char c \<and> (of_char c :: int) \<le> 57)"

text \<open>\<open>s.startsWith(q)\<close> and \<open>s.includes(q)\<close>: \<open>q\<close> occurs in \<open>s\<close> at some position.\<close>

fun startsWith :: "string \<Rightarrow> string \<Rightarrow> bool" where
  "startsWith s [] = True"
| "startsWith [] (c # q) = False"
| "startsWith (d # s) (c # q) = (d = c \<and> startsWith s q)"

fun str_includes :: "string \<Rightarrow> string \<Rightarrow> bool" where
  "str_includes [] q = startsWith [] q"
| "str_includes (d # s) q = (startsWith (d # s) q \<or> str_includes s q)"

text \<open>
  \<open>xs.slice(start, end)\<close> on an array, with integer arguments: a negative index counts
  from the end, both indices are clipped to the array, and an empty range gives \<open>[]\<close>.
\<close>

definition slice :: "'a list \<Rightarrow> int \<Rightarrow> int \<Rightarrow> 'a list" where
  "slice xs start end' =
     (let len = int (length xs);
          k = (if start < 0 then max (len + start) 0 else min start len);
          final = (if end' < 0 then max (len + end') 0 else min end' len)
      in take (nat (max (final - k) 0)) (drop (nat k) xs))"

text \<open>
  An optional string field (\<open>string | undefined\<close>) is truthy when it is present and not
  the empty string. \<open>a || b\<close> is \<open>a\<close> when \<open>a\<close> is truthy and \<open>b\<close> otherwise.
\<close>

definition truthy :: "string option \<Rightarrow> bool" where
  "truthy v = (case v of None \<Rightarrow> False | Some s \<Rightarrow> s \<noteq> [])"

definition or_else :: "string option \<Rightarrow> string option \<Rightarrow> string option" where
  "or_else a b = (if truthy a then a else b)"

definition or_default :: "string option \<Rightarrow> string \<Rightarrow> string" where
  "or_default a d = (if truthy a then the a else d)"

section \<open>The platform\<close>

text \<open>
  What the code takes from the JavaScript engine and its locale and time zone is a
  parameter of the model:
  \<^item> \<open>parseFloat\<close>: the global function of that name;
  \<^item> \<open>toLowerCase\<close>: \<open>String.prototype.toLowerCase\<close>, on every cased letter;
  \<^item> \<open>Date_parse\<close>: the time value (milliseconds since the epoch, or \<open>NaN\<close> for an invalid
    date) of \<open>new Date(s)\<close> for a string \<open>s\<close>;
  \<^item> \<open>endOfDay\<close>: the time value after \<open>setHours(23, 59, 59, 999)\<close>, which depends on the
    local time zone;
  \<^item> \<open>fl\<close>: rounding of an exact result to a binary64 value;
  \<^item> \<open>Number_toString\<close>: the decimal rendering of a finite number (used by \<open>toFixed\<close> from
    \<open>10^21\<close> on);
  \<^item> \<open>Number_toLocaleString\<close>: \<open>toLocaleString('en-US', {minimumFractionDigits: 2,
    maximumFractionDigits: 6})\<close> on a number;
  \<^item> \<open>Date_toLocaleString\<close>: \<open>toLocaleString('en-US', {month: 'short', day: 'numeric',
    year: 'numeric', hour: '2-digit', minute: '2-digit'})\<close> on a valid date, given by its
    time value.
\<close>

record platform =
  parseFloat :: "string \<Rightarrow> jsnum"
  toLowerCase :: "string \<Rightarrow> string"
  Date_parse :: "string \<Rightarrow> jsnum"
  endOfDay :: "jsnum \<Rightarrow> jsnum"
  fl :: "rat \<Rightarrow> jsnum"
  Number_toString :: "rat \<Rightarrow> string"
  Number_toLocaleString :: "jsnum \<Rightarrow> string"
  Date_toLocaleString :: "jsnum \<Rightarrow> string"

text \<open>The product of two numbers: the special cases of IEEE 754, and the rounded exact
  product of two finite values.\<close>

fun num_sign :: "jsnum \<Rightarrow> int" where
  "num_sign NaN = 0"
| "num_sign NegInf = - 1"
| "num_sign PosInf = 1"
| "num_sign (Fin q) = (if q < 0 then - 1 else if q = 0 then 0 else 1)"

definition num_mul :: "platform \<Rightarrow> jsnum \<Rightarrow> jsnum \<Rightarrow> jsnum" where
  "num_mul P a b =
     (case (a, b) of
        (Fin x, Fin y) \<Rightarrow> fl P (x * y)
      | _ \<Rightarrow>
        (if a = NaN \<or> b = NaN \<or> num_sign a * num_sign b = 0 then NaN
         else if num_sign a * num_sign b < 0 then NegInf else PosInf))"

text \<open>Decimal digits of a non-negative integer.\<close>

definition digit_char :: "int \<Rightarrow> char" where
  "digit_char d = char_of (48 + d)"

function decimal :: "int \<Rightarrow> string" where
  "decimal n = (if n < 10 then [digit_char n] else decimal (n div 10) @ [digit_char (n mod 10)])"
  by pat_completeness auto
termination
  by (relation "measure nat") auto

declare decimal.simps [simp del]

text \<open>
  \<open>x.toFixed(f)\<close>: a non-finite number prints by name; a value from \<open>10^21\<close> on prints as
  \<open>Number_toString\<close> does; otherwise \<open>n\<close> is the integer nearest to \<open>x * 10^f\<close> (the larger
  one of two), printed with at least \<open>f + 1\<close> digits and a point before the last \<open>f\<close>.
\<close>

definition toFixed :: "platform \<Rightarrow> jsnum \<Rightarrow> nat \<Rightarrow> string" where
  "toFixed P x f =
     (case x of
        NaN \<Rightarrow> ''NaN''
      | PosInf \<Rightarrow> ''Infinity''
      | NegInf \<Rightarrow> ''-Infinity''
      | Fin q \<Rightarrow>
          (let s = (if q < 0 then ''-'' else '''');
               y = \<bar>q\<bar>
           in if y \<ge> 10 ^ 21 then s @ Number_toString P y
              else
                (let n = \<lfloor>y * 10 ^ f + 1 / 2\<rfloor>;
                     m = decimal n;
                     m = (if f \<noteq> 0 \<and> length m \<le> f
                          then replicate (f + 1 - length m) (CHR ''0'') @ m else m)
                 in if f \<noteq> 0
                    then s @ take (length m - f) m @ ''.'' @ drop (length m - f) m
                    else s @ m)))"

section \<open>Data model (types/transaction.ts)\<close>

datatype TransactionStatus = PENDING | CONFIRMED | FAILED

text \<open>The string value of each member of the enumeration.\<close>

fun status_value :: "TransactionStatus \<Rightarrow> string" where
  "status_value PENDING = ''pending''"
| "status_value CONFIRMED = ''confirmed''"
| "status_value FAILED = ''failed''"

text \<open>The fields of a transaction that the pipeline reads (the identifiers and
  \<open>updatedAt\<close> are never read by it).\<close>

record Transaction =
  hash :: string
  fromAddress :: string
  toAddress :: string
  amount :: string
  status :: TransactionStatus
  gasLimit :: "string option"
  gasPrice :: "string option"
  timestamp :: "string option"
  createdAt :: "string option"

datatype SortField = Timestamp | Amount | Status

datatype SortDirection = Asc | Desc

text \<open>
  The view state: the filter criteria are state of \<open>TransactionsPage\<close>, the sort and page
  fields are state of \<open>TransactionList\<close>. A \<open>Date\<close> is given by its time value.
\<close>

record ViewState =
  selectedStatuses :: "TransactionStatus list"
  dateFrom :: "jsnum option"
  dateTo :: "jsnum option"
  searchQuery :: string
  sortField :: SortField
  sortDirection :: SortDirection
  currentPage :: int
  itemsPerPage :: int

section \<open>Pagination window (TransactionList.tsx)\<close>

text \<open>
  \<open>Math.ceil(sortedTransactions.length / itemsPerPage)\<close>. The quotient is exact here;
  \<open>itemsPerPage\<close> is 15 initially and one of 10, 15, 20 afterwards, and the division by
  zero of JavaScript (\<open>Infinity\<close> or \<open>NaN\<close>) is not modelled.
\<close>

definition totalPages :: "'a list \<Rightarrow> int \<Rightarrow> int" where
  "totalPages sortedTransactions ipp =
     \<lceil>(of_nat (length sortedTransactions) :: rat) / of_int ipp\<rceil>"

definition startIndex :: "int \<Rightarrow> int \<Rightarrow> int" where
  "startIndex cp ipp = (cp - 1) * ipp"

definition endIndex :: "int \<Rightarrow> int \<Rightarrow> int" where
  "endIndex cp ipp = startIndex cp ipp + ipp"

definition paginatedTransactions :: "'a list \<Rightarrow> int \<Rightarrow> int \<Rightarrow> 'a list" where
  "paginatedTransactions sortedTransactions cp ipp =
     slice sortedTransactions (startIndex cp ipp) (endIndex cp ipp)"

text \<open>The pagination metadata as the specification words it:
  \<open>max(1, ceil(n / itemsPerPage))\<close>.\<close>

definition spec_totalPages :: "nat \<Rightarrow> int \<Rightarrow> int" where
  "spec_totalPages n ipp = max 1 \<lceil>(of_nat n :: rat) / of_int ipp\<rceil>"

text \<open>The elements of a sequence at the indices of a half-open integer range, clipped to
  the sequence.\<close>

definition elements_in_range :: "'a list \<Rightarrow> int \<Rightarrow> int \<Rightarrow> 'a list" where
  "elements_in_range xs lo hi =
     map (\<lambda>i. xs ! i) (filter (\<lambda>i. lo \<le> int i \<and> int i < hi) [0..<length xs])"

section \<open>Formatters (lib/utils/format.ts)\<close>

text \<open>
  \<open>formatAmount(amount, symbol = 'ETH')\<close>. The string returned for an amount that does
  not parse is written in single quotes in the source, so it is the eleven characters
  \<open>0 ${symbol}\<close> themselves.
\<close>

definition formatAmount :: "platform \<Rightarrow> string \<Rightarrow> string \<Rightarrow> string" where
  "formatAmount P amount' symbol =
     (let num = parseFloat P amount'
      in if isNaN num then ''0 ${symbol}''
         else Number_toLocaleString P num @ '' '' @ symbol)"

definition formatAmount_default :: "platform \<Rightarrow> string \<Rightarrow> string" where
  "formatAmount_default P amount' = formatAmount P amount' ''ETH''"

text \<open>\<open>formatFullDate(timestamp)\<close> on a string or \<open>undefined\<close>.\<close>

definition formatFullDate :: "platform \<Rightarrow> string option \<Rightarrow> string" where
  "formatFullDate P ts =
     (if \<not> truthy ts then ''N/A''
      else (let date = Date_parse P (the ts)
            in if isNaN date then ''N/A'' else Date_toLocaleString P date))"

section \<open>Export serializer (lib/utils/export.ts)\<close>

text \<open>
  One object of \<open>exportData\<close>: its keys in insertion order, each with its value. The keys
  are not integer-like, so this is the order \<open>json_to_sheet\<close> lays the columns out in.
\<close>

definition exportRow :: "platform \<Rightarrow> Transaction \<Rightarrow> (string \<times> string) list" where
  "exportRow P tx =
     [(''Transaction Hash'', hash tx),
      (''From Address'', fromAddress tx),
      (''To Address'', toAddress tx),
      (''Amount (ETH)'', toFixed P (parseFloat P (amount tx)) 6),
      (''Status'', toUpperCase (take 1 (status_value (status tx))) @ drop 1 (status_value (status tx))),
      (''Gas Limit'', or_default (gasLimit tx) ''N/A''),
      (''Gas Price (ETH)'', or_default (gasPrice tx) ''N/A''),
      (''Transaction Fee (ETH)'',
         if truthy (gasLimit tx) \<and> truthy (gasPrice tx)
         then toFixed P (num_mul P (parseFloat P (the (gasLimit tx)))
                                   (parseFloat P (the (gasPrice tx)))) 8
         else ''0''),
      (''Timestamp'', formatFullDate P (or_else (timestamp tx) (createdAt tx))),
      (''Date'', or_default (or_else (timestamp tx) (createdAt tx)) ''N/A'')]"

text \<open>The file that \<open>XLSX.writeFile\<close> writes: one sheet, its rows, its column widths.\<close>

record xlsx_file =
  filename :: string
  sheetName :: string
  sheetRows :: "(string \<times> string) list list"
  columnWidths :: "nat list"

definition exportTransactionsToXLSX :: "platform \<Rightarrow> Transaction list \<Rightarrow> string \<Rightarrow> xlsx_file" where
  "exportTransactionsToXLSX P transactions fname =
     (let exportData = map (exportRow P) transactions
      in \<lparr>filename = fname, sheetName = ''Transactions'', sheetRows = exportData,
          columnWidths = [20, 42, 42, 15, 12, 12, 18, 18, 20, 25]\<rparr>)"

text \<open>
  The record of a transaction as the specification words it. A field is absent when it is
  \<open>undefined\<close> or the empty string.
\<close>

definition absent :: "string option \<Rightarrow> bool" where
  "absent v = (v = None \<or> v = Some [])"



definition spec_effective :: "Transaction \<Rightarrow> string option" where
  "spec_effective tx = (if absent (timestamp tx) then createdAt tx else timestamp tx)"


section \<open>Filter predicate composer (app/transactions/page.tsx)\<close>

text \<open>The date of a transaction: \<open>new Date(tx.timestamp || tx.createdAt || '')\<close>, as its
  time value.\<close>

definition txDate :: "platform \<Rightarrow> Transaction \<Rightarrow> jsnum" where
  "txDate P tx = Date_parse P (or_default (or_else (timestamp tx) (createdAt tx)) [])"

text \<open>
  \<open>filteredTransactions\<close>: the four filter stages in the order of the source. A \<open>Date\<close>
  object is truthy whatever its time value, so a date stage runs whenever the bound is
  not \<open>null\<close>; the search stage runs when the query is not the empty string.
\<close>

definition filteredTransactions ::
  "platform \<Rightarrow> Transaction list \<Rightarrow> 'a ViewState_scheme \<Rightarrow> Transaction list" where
  "filteredTransactions P transactions vs =
     (let filtered = transactions;
          filtered =
            (if length (selectedStatuses vs) > 0
             then filter (\<lambda>tx. List.member (selectedStatuses vs) (status tx)) filtered
             else filtered);
          filtered =
            (case dateFrom vs of
               Some fromDate \<Rightarrow> filter (\<lambda>tx. num_ge (txDate P tx) fromDate) filtered
             | None \<Rightarrow> filtered);
          filtered =
            (case dateTo vs of
               Some toDate \<Rightarrow> filter (\<lambda>tx. num_le (txDate P tx) (endOfDay P toDate)) filtered
             | None \<Rightarrow> filtered);
          filtered =
            (if searchQuery vs \<noteq> []
             then (let query = toLowerCase P (searchQuery vs)
                   in filter (\<lambda>tx. str_includes (toLowerCase P (hash tx)) query \<or>
                                    str_includes (toLowerCase P (fromAddress tx)) query \<or>
                                    str_includes (toLowerCase P (toAddress tx)) query) filtered)
             else filtered)
      in filtered)"

text \<open>
  The three criteria as the specification words them. The effective time of a
  transaction is its \<open>timestamp\<close> field, or \<open>createdAt\<close> if that is absent, read as a date (a
  transaction with neither has the empty text to read); it is unparseable when the time
  value is \<open>NaN\<close>. One string matches another case-insensitively when it occurs in it after
  both are put in lower case.
\<close>

definition spec_status_ok :: "'a ViewState_scheme \<Rightarrow> Transaction \<Rightarrow> bool" where
  "spec_status_ok vs tx =
     (selectedStatuses vs = [] \<or> status tx \<in> set (selectedStatuses vs))"

definition spec_effective_time :: "platform \<Rightarrow> Transaction \<Rightarrow> jsnum" where
  "spec_effective_time P tx =
     Date_parse P (if absent (spec_effective tx) then [] else the (spec_effective tx))"

text \<open>One time value is at most another: neither is unparseable, and the first is not
  the later one.\<close>

fun spec_at_most :: "jsnum \<Rightarrow> jsnum \<Rightarrow> bool" where
  "spec_at_most NaN _ = False"
| "spec_at_most _ NaN = False"
| "spec_at_most NegInf _ = True"
| "spec_at_most _ PosInf = True"
| "spec_at_most (Fin x) (Fin y) = (x \<le> y)"
| "spec_at_most (Fin x) NegInf = False"
| "spec_at_most PosInf _ = False"

definition spec_date_ok :: "platform \<Rightarrow> 'a ViewState_scheme \<Rightarrow> Transaction \<Rightarrow> bool" where
  "spec_date_ok P vs tx =
     ((case dateFrom vs of None \<Rightarrow> True
       | Some fromDate \<Rightarrow>
           spec_effective_time P tx \<noteq> NaN \<and> spec_at_most fromDate (spec_effective_time P tx)) \<and>
      (case dateTo vs of None \<Rightarrow> True
       | Some toDate \<Rightarrow>
           spec_effective_time P tx \<noteq> NaN \<and>
           spec_at_most (spec_effective_time P tx) (endOfDay P toDate)))"

definition ci_substring :: "platform \<Rightarrow> string \<Rightarrow> string \<Rightarrow> bool" where
  "ci_substring P q s = sublist (toLowerCase P q) (toLowerCase P s)"

definition spec_search_ok :: "platform \<Rightarrow> 'a ViewState_scheme \<Rightarrow> Transaction \<Rightarrow> bool" where
  "spec_search_ok P vs tx =
     (searchQuery vs = [] \<or>
      ci_substring P (searchQuery vs) (hash tx) \<or>
      ci_substring P (searchQuery vs) (fromAddress tx) \<or>
      ci_substring P (searchQuery vs) (toAddress tx))"

definition spec_survives :: "platform \<Rightarrow> 'a ViewState_scheme \<Rightarrow> Transaction \<Rightarrow> bool" where
  "spec_survives P vs tx =
     (spec_status_ok vs tx \<and> spec_date_ok P vs tx \<and> spec_search_ok P vs tx)"

section \<open>Status selection and export trigger (InlineFilters)\<close>

definition ALL_STATUSES :: "TransactionStatus list" where
  "ALL_STATUSES = [PENDING, CONFIRMED, FAILED]"

text \<open>\<open>handleStatusToggle\<close> and \<open>handleSelectAll\<close>, as the list given to \<open>onStatusChange\<close>.\<close>

definition handleStatusToggle :: "TransactionStatus list \<Rightarrow> TransactionStatus \<Rightarrow> TransactionStatus list" where
  "handleStatusToggle sel st =
     (if List.member sel st then filter (\<lambda>s. s \<noteq> st) sel else sel @ [st])"

definition handleSelectAll :: "TransactionStatus list \<Rightarrow> TransactionStatus list" where
  "handleSelectAll sel =
     (if length sel = length ALL_STATUSES then [] else ALL_STATUSES)"

text \<open>
  \<open>handleExport\<close>: the file written, if any. \<open>today\<close> is
  \<open>new Date().toISOString().split('T')[0]\<close>, the date of the click.
\<close>

definition handleExport :: "platform \<Rightarrow> string \<Rightarrow> Transaction list \<Rightarrow> xlsx_file option" where
  "handleExport P today transactions =
     (if length transactions = 0 then None
      else Some (exportTransactionsToXLSX P transactions
                   (''transactions-'' @ today @ ''.xlsx'')))"

section \<open>Comparator engine (TransactionList.tsx)\<close>

text \<open>
  The comparator given to \<open>sort\<close>. Both keys come from the same branch of the \<open>switch\<close>,
  so they are two numbers or two strings; \<open>a > b\<close> is \<open>b < a\<close> for both. The \<open>default\<close>
  branch is not reachable for a \<open>SortField\<close>.
\<close>

definition compare_keys :: "('k \<Rightarrow> 'k \<Rightarrow> bool) \<Rightarrow> SortDirection \<Rightarrow> 'k \<Rightarrow> 'k \<Rightarrow> int" where
  "compare_keys lt dir aValue bValue =
     (if lt aValue bValue then (if dir = Asc then - 1 else 1)
      else if lt bValue aValue then (if dir = Asc then 1 else - 1)
      else 0)"

definition comparator :: "platform \<Rightarrow> SortField \<Rightarrow> SortDirection \<Rightarrow> Transaction \<Rightarrow> Transaction \<Rightarrow> int" where
  "comparator P field dir a b =
     (case field of
        Timestamp \<Rightarrow> compare_keys num_lt dir (txDate P a) (txDate P b)
      | Amount \<Rightarrow> compare_keys num_lt dir (parseFloat P (amount a)) (parseFloat P (amount b))
      | Status \<Rightarrow> compare_keys str_lt dir (status_value (status a)) (status_value (status b)))"

text \<open>
  The comparator as the specification words it: an unparseable effective time counts as
  the epoch 0, an unparseable amount as 0.
\<close>

definition spec_sentinel :: "jsnum \<Rightarrow> jsnum" where
  "spec_sentinel x = (if x = NaN then Fin 0 else x)"

definition spec_comparator :: "platform \<Rightarrow> SortField \<Rightarrow> SortDirection \<Rightarrow> Transaction \<Rightarrow> Transaction \<Rightarrow> int" where
  "spec_comparator P field dir a b =
     (case field of
        Timestamp \<Rightarrow> compare_keys num_lt dir (spec_sentinel (txDate P a)) (spec_sentinel (txDate P b))
      | Amount \<Rightarrow> compare_keys num_lt dir (spec_sentinel (parseFloat P (amount a)))
                                           (spec_sentinel (parseFloat P (amount b)))
      | Status \<Rightarrow> compare_keys str_lt dir (status_value (status a)) (status_value (status b)))"

section \<open>View state controller (TransactionsPage and TransactionList)\<close>

text \<open>
  The state of the two components together: the raw collection and the view state. The
  list component receives \<open>filteredTransactions\<close> as its \<open>transactions\<close> property.
\<close>

record AppState = ViewState +
  transactions :: "Transaction list"

definition visible :: "platform \<Rightarrow> AppState \<Rightarrow> Transaction list" where
  "visible P s = filteredTransactions P (transactions s) s"

definition initial :: AppState where
  "initial =
     \<lparr>selectedStatuses = [], dateFrom = None, dateTo = None, searchQuery = [],
      sortField = Timestamp, sortDirection = Desc, currentPage = 1, itemsPerPage = 15,
      transactions = []\<rparr>"

text \<open>The number on the \<open>i\<close>-th page button, \<open>i\<close> from 0 up to \<open>min(5, totalPages)\<close>.\<close>

definition pageNum :: "int \<Rightarrow> int \<Rightarrow> int \<Rightarrow> int" where
  "pageNum tp cp i =
     (if tp \<le> 5 then i + 1
      else if cp \<le> 3 then i + 1
      else if cp \<ge> tp - 2 then tp - 4 + i
      else cp - 2 + i)"

definition itemsPerPageOptions :: "int list" where
  "itemsPerPageOptions = [10, 15, 20]"

text \<open>What the user and the API layer can do to the state.\<close>

datatype intent =
    StatusChange "TransactionStatus list"
  | DateFromChange "jsnum option"
  | DateToChange "jsnum option"
  | SearchChange string
  | ClearFilters
  | SetTransactions "Transaction list"
  | Sort SortField
  | ItemsPerPageChange int
  | Previous
  | Next
  | PageButton int

definition handleSort :: "SortField \<Rightarrow> AppState \<Rightarrow> AppState" where
  "handleSort f s =
     (if sortField s = f
      then s\<lparr>sortDirection := (if sortDirection s = Asc then Desc else Asc)\<rparr>
      else s\<lparr>sortField := f, sortDirection := Desc\<rparr>)\<lparr>currentPage := 1\<rparr>"

definition handleItemsPerPageChange :: "int \<Rightarrow> AppState \<Rightarrow> AppState" where
  "handleItemsPerPageChange newItemsPerPage s =
     s\<lparr>itemsPerPage := newItemsPerPage, currentPage := 1\<rparr>"

definition handleClearFilters :: "AppState \<Rightarrow> AppState" where
  "handleClearFilters s =
     s\<lparr>selectedStatuses := [], dateFrom := None, dateTo := None, searchQuery := []\<rparr>"

text \<open>The state setters each handler calls.\<close>

fun handle :: "platform \<Rightarrow> intent \<Rightarrow> AppState \<Rightarrow> AppState" where
  "handle P (StatusChange sel) s = s\<lparr>selectedStatuses := sel\<rparr>"
| "handle P (DateFromChange d) s = s\<lparr>dateFrom := d\<rparr>"
| "handle P (DateToChange d) s = s\<lparr>dateTo := d\<rparr>"
| "handle P (SearchChange q) s = s\<lparr>searchQuery := q\<rparr>"
| "handle P ClearFilters s = handleClearFilters s"
| "handle P (SetTransactions txs) s = s\<lparr>transactions := txs\<rparr>"
| "handle P (Sort f) s = handleSort f s"
| "handle P (ItemsPerPageChange v) s = handleItemsPerPageChange v s"
| "handle P Previous s = s\<lparr>currentPage := max 1 (currentPage s - 1)\<rparr>"
| "handle P Next s =
     s\<lparr>currentPage := min (totalPages (visible P s) (itemsPerPage s)) (currentPage s + 1)\<rparr>"
| "handle P (PageButton i) s =
     s\<lparr>currentPage := pageNum (totalPages (visible P s) (itemsPerPage s)) (currentPage s) i\<rparr>"

text \<open>
  Which controls are rendered and not disabled: the sortable headers need a row, the
  pagination block needs more than one page, the select offers three sizes, there are
  \<open>min(5, totalPages)\<close> page buttons.
\<close>

fun enabled :: "platform \<Rightarrow> AppState \<Rightarrow> intent \<Rightarrow> bool" where
  "enabled P s (Sort f) = (visible P s \<noteq> [])"
| "enabled P s (ItemsPerPageChange v) =
     (totalPages (visible P s) (itemsPerPage s) > 1 \<and> List.member itemsPerPageOptions v)"
| "enabled P s Previous =
     (totalPages (visible P s) (itemsPerPage s) > 1 \<and> currentPage s \<noteq> 1)"
| "enabled P s Next =
     (totalPages (visible P s) (itemsPerPage s) > 1 \<and>
      currentPage s \<noteq> totalPages (visible P s) (itemsPerPage s))"
| "enabled P s (PageButton i) =
     (totalPages (visible P s) (itemsPerPage s) > 1 \<and> 0 \<le> i \<and>
      i < min 5 (totalPages (visible P s) (itemsPerPage s)))"
| "enabled P s _ = True"

text \<open>
  The effect with the dependencies \<open>[transactions.length, itemsPerPage]\<close>: after a render
  in which one of the two differs from the render before, it sets the page to 1.
\<close>

definition page_reset_effect :: "platform \<Rightarrow> AppState \<Rightarrow> AppState \<Rightarrow> AppState" where
  "page_reset_effect P before s =
     (if length (visible P s) \<noteq> length (visible P before) \<or>
         itemsPerPage s \<noteq> itemsPerPage before
      then s\<lparr>currentPage := 1\<rparr> else s)"

text \<open>One intent, from the handler to the state after the effects of the render it
  causes.\<close>

definition step :: "platform \<Rightarrow> AppState \<Rightarrow> intent \<Rightarrow> AppState" where
  "step P s i = (if enabled P s i then page_reset_effect P s (handle P i s) else s)"

definition run :: "platform \<Rightarrow> intent list \<Rightarrow> AppState" where
  "run P intents = foldl (step P) initial intents"

text \<open>Whether an intent changes a filter criterion or the page size of a state.\<close>

fun mutates_filter :: "intent \<Rightarrow> AppState \<Rightarrow> bool" where
  "mutates_filter (StatusChange sel) s = (sel \<noteq> selectedStatuses s)"
| "mutates_filter (DateFromChange d) s = (d \<noteq> dateFrom s)"
| "mutates_filter (DateToChange d) s = (d \<noteq> dateTo s)"
| "mutates_filter (SearchChange q) s = (q \<noteq> searchQuery s)"
| "mutates_filter (ItemsPerPageChange v) s = (v \<noteq> itemsPerPage s)"
| "mutates_filter _ s = False"

text \<open>The bounds of the page as the specification words them.\<close>

definition spec_page_in_range :: "platform \<Rightarrow> AppState \<Rightarrow> bool" where
  "spec_page_in_range P s =
     (1 \<le> currentPage s \<and>
      currentPage s \<le> max 1 \<lceil>(of_nat (length (visible P s)) :: rat) / of_int (itemsPerPage s)\<rceil>)"

text \<open>The page size is positive and the page is within its bounds.\<close>

definition page_ok :: "platform \<Rightarrow> AppState \<Rightarrow> bool" where
  "page_ok P s =
     (0 < itemsPerPage s \<and> 1 \<le> currentPage s \<and>
      currentPage s \<le> max 1 (totalPages (visible P s) (itemsPerPage s)))"

section \<open>Search debounce (SearchBar)\<close>

text \<open>
  The state of \<open>SearchBar\<close>: \<open>inputValue\<close> is its \<open>searchQuery\<close> state, \<open>debouncedSearch\<close> is what
  \<open>useDebounce\<close> returns, \<open>pending\<close> is the timer of \<open>useDebounce\<close> (when it is due and the
  value it delivers). \<open>propagated\<close> lists the calls of \<open>onSearchChange\<close> after the component
  has mounted (mounting calls it once, with the empty string), each with the time it is
  due. Times are in milliseconds.
\<close>

record SearchBar =
  inputValue :: string
  debouncedSearch :: string
  pending :: "(int \<times> string) option"
  propagated :: "(int \<times> string) list"

text \<open>
  Modelled from the spec: the hook \<open>useDebounce\<close> (hooks/use-debounce) that \<open>SearchBar\<close>
  calls with a delay of 300 is not among the sources. Following section 4.3 of the
  specification it is a single cancellable timer: a change of the input value cancels
  the pending timer and starts one that delivers the new value \<open>debounce_delay\<close>
  milliseconds later; before any input the debounced value is the initial one.
\<close>

definition debounce_delay :: int where
  "debounce_delay = 300"

definition mounted :: SearchBar where
  "mounted = \<lparr>inputValue = [], debouncedSearch = [], pending = None, propagated = []\<rparr>"

text \<open>
  Modelled from the spec: time passes up to \<open>t\<close> and the timer of \<open>useDebounce\<close> fires if
  it is due, which sets \<open>debouncedSearch\<close>. The effect of \<open>SearchBar\<close> then calls
  \<open>onSearchChange\<close> if the value is a new one (an unchanged state causes no render and no
  effect). A timer due at the time of an input event fires before the event.
\<close>

definition advance :: "int \<Rightarrow> SearchBar \<Rightarrow> SearchBar" where
  "advance t s =
     (case pending s of
        None \<Rightarrow> s
      | Some (due, v) \<Rightarrow>
          if due \<le> t
          then s\<lparr>debouncedSearch := v, pending := None,
                 propagated := (if v \<noteq> debouncedSearch s then propagated s @ [(due, v)]
                                else propagated s)\<rparr>
          else s)"

datatype input_event = Keystroke int string | ClearClick int



text \<open>
  \<open>onChange\<close> with the new value of the input, and \<open>handleClear\<close>, both from \<open>SearchBar\<close>.
  Modelled from the spec: a change of the input value replaces the pending timer.
\<close>

fun on_event :: "input_event \<Rightarrow> SearchBar \<Rightarrow> SearchBar" where
  "on_event (Keystroke t v) s0 =
     (let s = advance t s0
      in if v = inputValue s then s
         else s\<lparr>inputValue := v, pending := Some (t + debounce_delay, v)\<rparr>)"
| "on_event (ClearClick t) s0 =
     (let s = advance t s0
      in s\<lparr>inputValue := [],
           pending := (if inputValue s = [] then pending s else Some (t + debounce_delay, [])),
           propagated := propagated s @ [(t, [])]\<rparr>)"

definition run_events :: "input_event list \<Rightarrow> SearchBar \<Rightarrow> SearchBar" where
  "run_events evs s = foldl (\<lambda>s e. on_event e s) s evs"

text \<open>No further input: a pending timer fires when it is due.\<close>

definition settle :: "SearchBar \<Rightarrow> SearchBar" where
  "settle s = (case pending s of None \<Rightarrow> s | Some (due, v) \<Rightarrow> advance due s)"

text \<open>
  A sequence of input events as the browser delivers it: in order of time, a keystroke
  event carries a value other than the one in the input, and the clear button is there
  only while the input is not empty.
\<close>

fun input_sequence :: "string \<Rightarrow> int \<Rightarrow> input_event list \<Rightarrow> bool" where
  "input_sequence cur t [] = True"
| "input_sequence cur t (Keystroke t' v # es) = (t \<le> t' \<and> v \<noteq> cur \<and> input_sequence v t' es)"
| "input_sequence cur t (ClearClick t' # es) = (t \<le> t' \<and> cur \<noteq> [] \<and> input_sequence [] t' es)"




text \<open>
  What the filter holds: the argument of the last call of \<open>onSearchChange\<close>, or the empty
  string of the call at mount when there has been none since.
\<close>

definition filter_value :: "SearchBar \<Rightarrow> string" where
  "filter_value s = (if propagated s = [] then [] else snd (last (propagated s)))"





section \<open>A platform and data for the examples\<close>

text \<open>
  A concrete platform on which the examples below are evaluated. The theorems hold for
  every platform; this one fixes a time zone and a locale so that an example has a value.
  \<^item> \<open>sample_parseFloat\<close> reads the longest prefix that is a decimal literal (leading
    white space, a sign, digits, a fraction, an exponent, or \<open>Infinity\<close>) and gives its exact
    value; an engine rounds that value to binary64.
  \<^item> \<open>fl\<close> is exact as well, so a product is not rounded.
  \<^item> \<open>toLowerCase\<close> lowers the ASCII letters and leaves every other byte as it is; an
    engine lowers every cased letter. The strings of the examples are ASCII.
  \<^item> \<open>sample_Date_parse\<close> reads the shape \<open>toISOString\<close> produces
    (\<open>YYYY-MM-DDTHH:mm:ss.sssZ\<close>); a string of another shape is taken as no date, although
    an engine reads more shapes than this one.
  \<^item> The time zone is UTC; the date is printed as an English (US) locale prints it, with
    an ordinary space before \<open>AM\<close> and \<open>PM\<close>.
  \<^item> \<open>sample_Number_toString\<close> prints a whole number from \<open>10^21\<close> on in exponent
    notation with all its significant digits; an engine prints the shortest digits that
    read back as the same binary64 value, at most seventeen.
  \<^item> No example reaches the non-finite cases of \<open>sample_Number_toLocaleString\<close>.
  The numbers of the examples are exactly representable in binary64, so on them this
  platform agrees with an engine.
\<close>

definition lower_char :: "char \<Rightarrow> char" where
  "lower_char c =
     (if (65::nat) \<le> of_char c \<and> (of_char c :: nat) \<le> 90
      then char_of ((of_char c :: nat) + 32) else c)"

definition is_space :: "char \<Rightarrow> bool" where
  "is_space c = (c = CHR '' '' \<or> (of_char c :: nat) \<in> {9, 10, 11, 12, 13})"

definition digits_value :: "string \<Rightarrow> int" where
  "digits_value ds = foldl (\<lambda>n c. 10 * n + (of_char c - 48)) 0 ds"

definition pow10 :: "int \<Rightarrow> rat" where
  "pow10 e = (if e < 0 then 1 / 10 ^ nat (- e) else 10 ^ nat e)"

definition sample_exponent :: "string \<Rightarrow> int" where
  "sample_exponent r =
     (case r of
        [] \<Rightarrow> 0
      | c # r1 \<Rightarrow>
          if c = CHR ''e'' \<or> c = CHR ''E'' then
            (let neg = (take 1 r1 = ''-'');
                 r2 = (if take 1 r1 = ''-'' \<or> take 1 r1 = ''+'' then drop 1 r1 else r1);
                 ds = takeWhile is_digit r2
             in if ds = [] then 0
                else if neg then - digits_value ds else digits_value ds)
          else 0)"

definition sample_parseFloat :: "string \<Rightarrow> jsnum" where
  "sample_parseFloat s =
     (let t = dropWhile is_space s;
          neg = (take 1 t = ''-'');
          t = (if take 1 t = ''-'' \<or> take 1 t = ''+'' then drop 1 t else t);
          ip = takeWhile is_digit t;
          r = dropWhile is_digit t;
          fp = (if take 1 r = ''.'' then takeWhile is_digit (drop 1 r) else []);
          r = (if take 1 r = ''.'' then dropWhile is_digit (drop 1 r) else r)
      in if ip = [] \<and> fp = []
         then (if startsWith t ''Infinity'' then (if neg then NegInf else PosInf) else NaN)
         else (let m = (of_int (digits_value ip) + of_int (digits_value fp) / 10 ^ length fp)
                         * pow10 (sample_exponent r)
               in Fin (if neg then - m else m)))"


definition days_from_civil :: "int \<Rightarrow> int \<Rightarrow> int \<Rightarrow> int" where
  "days_from_civil y m d =
     (let y1 = (if m \<le> 2 then y - 1 else y);
          era = y1 div 400;
          yoe = y1 - era * 400;
          doy = (153 * (if m > 2 then m - 3 else m + 9) + 2) div 5 + d - 1;
          doe = yoe * 365 + yoe div 4 - yoe div 100 + doy
      in era * 146097 + doe - 719468)"

definition civil_from_days :: "int \<Rightarrow> int \<times> int \<times> int" where
  "civil_from_days z =
     (let z1 = z + 719468;
          era = z1 div 146097;
          doe = z1 - era * 146097;
          yoe = (doe - doe div 1460 + doe div 36524 - doe div 146096) div 365;
          doy = doe - (365 * yoe + yoe div 4 - yoe div 100);
          mp = (5 * doy + 2) div 153;
          d = doy - (153 * mp + 2) div 5 + 1;
          m = (if mp < 10 then mp + 3 else mp - 9);
          y = yoe + era * 400
      in ((if m \<le> 2 then y + 1 else y), m, d))"

definition days_in_month :: "int \<Rightarrow> int \<Rightarrow> int" where
  "days_in_month y m =
     (if m = 2 then (if y mod 4 = 0 \<and> (y mod 100 \<noteq> 0 \<or> y mod 400 = 0) then 29 else 28)
      else if m \<in> {4, 6, 9, 11} then 30 else 31)"

definition iso_field :: "string \<Rightarrow> nat \<Rightarrow> nat \<Rightarrow> int" where
  "iso_field s i n = digits_value (take n (drop i s))"

definition sample_Date_parse :: "string \<Rightarrow> jsnum" where
  "sample_Date_parse s =
     (if length s = 24 \<and>
         list_all is_digit (map (\<lambda>i. s ! i) [0, 1, 2, 3, 5, 6, 8, 9, 11, 12, 14, 15, 17, 18, 20, 21, 22]) \<and>
         map (\<lambda>i. s ! i) [4, 7, 10, 13, 16, 19, 23] = ''--T::.Z''
      then
        (let y = iso_field s 0 4; mo = iso_field s 5 2; d = iso_field s 8 2;
             h = iso_field s 11 2; mi = iso_field s 14 2; se = iso_field s 17 2; ms = iso_field s 20 3
         in if 1 \<le> mo \<and> mo \<le> 12 \<and> 1 \<le> d \<and> d \<le> days_in_month y mo \<and>
               mi \<le> 59 \<and> se \<le> 59 \<and>
               (h \<le> 23 \<or> (h = 24 \<and> mi = 0 \<and> se = 0 \<and> ms = 0))
            then Fin (of_int ((((days_from_civil y mo d * 24 + h) * 60 + mi) * 60 + se) * 1000 + ms))
            else NaN)
      else NaN)"


definition sample_endOfDay :: "jsnum \<Rightarrow> jsnum" where
  "sample_endOfDay t =
     (case t of Fin q \<Rightarrow> Fin (of_int (\<lfloor>q / 86400000\<rfloor> * 86400000 + 86399999)) | _ \<Rightarrow> NaN)"


definition pad2 :: "int \<Rightarrow> string" where
  "pad2 n = (if n < 10 then ''0'' @ decimal n else decimal n)"

definition month_names :: "string list" where
  "month_names = [''Jan'', ''Feb'', ''Mar'', ''Apr'', ''May'', ''Jun'', ''Jul'', ''Aug'',
                  ''Sep'', ''Oct'', ''Nov'', ''Dec'']"

definition sample_Date_toLocaleString :: "jsnum \<Rightarrow> string" where
  "sample_Date_toLocaleString t =
     (case t of
        Fin q \<Rightarrow>
          (let ms = \<lfloor>q\<rfloor>;
               day = ms div 86400000;
               minutes = (ms mod 86400000) div 60000;
               h = minutes div 60;
               mi = minutes mod 60;
               (y, m, d) = civil_from_days day;
               h12 = (if h mod 12 = 0 then 12 else h mod 12)
           in month_names ! nat (m - 1) @ '' '' @ decimal d @ '', '' @ decimal y @ '', '' @
              pad2 h12 @ '':'' @ pad2 mi @ (if h < 12 then '' AM'' else '' PM''))
      | _ \<Rightarrow> ''Invalid Date'')"


fun group_rev :: "string \<Rightarrow> string" where
  "group_rev (a # b # c # d # r) = a # b # c # CHR '','' # group_rev (d # r)"
| "group_rev r = r"

definition group3 :: "string \<Rightarrow> string" where
  "group3 ds = rev (group_rev (rev ds))"

definition strip_zeros :: "string \<Rightarrow> string" where
  "strip_zeros fs = take 2 fs @ rev (dropWhile (\<lambda>c. c = CHR ''0'') (rev (drop 2 fs)))"

definition sample_Number_toLocaleString :: "jsnum \<Rightarrow> string" where
  "sample_Number_toLocaleString x =
     (case x of
        NaN \<Rightarrow> ''NaN''
      | PosInf \<Rightarrow> ''Infinity''
      | NegInf \<Rightarrow> ''-Infinity''
      | Fin q \<Rightarrow>
          (let n = \<lfloor>\<bar>q\<bar> * 10 ^ 6 + 1 / 2\<rfloor>;
               fs = decimal (n mod 10 ^ 6);
               fs = replicate (6 - length fs) (CHR ''0'') @ fs
           in (if q < 0 then ''-'' else '''') @ group3 (decimal (n div 10 ^ 6)) @ ''.'' @ strip_zeros fs))"

definition sample_Number_toString :: "rat \<Rightarrow> string" where
  "sample_Number_toString q =
     (let ds = decimal \<lfloor>q\<rfloor>;
          m = rev (dropWhile (\<lambda>c. c = CHR ''0'') (rev ds))
      in take 1 m @ (if length m > 1 then ''.'' @ drop 1 m else []) @ ''e+'' @
         decimal (int (length ds) - 1))"

definition sample_platform :: platform where
  "sample_platform =
     \<lparr>parseFloat = sample_parseFloat, toLowerCase = map lower_char, Date_parse = sample_Date_parse,
      endOfDay = sample_endOfDay, fl = Fin, Number_toString = sample_Number_toString,
      Number_toLocaleString = sample_Number_toLocaleString,
      Date_toLocaleString = sample_Date_toLocaleString\<rparr>"



text \<open>Sample transactions: \<open>sample_txs n\<close> are \<open>n\<close> of them, told apart by their hashes.\<close>

definition sample_tx :: "string \<Rightarrow> TransactionStatus \<Rightarrow> Transaction" where
  "sample_tx h st =
     \<lparr>hash = h,
      fromAddress = ''0x1111111111111111111111111111111111111111'',
      toAddress = ''0x2222222222222222222222222222222222222222'',
      amount = ''1.5'', status = st,
      gasLimit = Some ''21000'', gasPrice = Some ''0.25'',
      timestamp = None, createdAt = Some ''2024-01-15T14:30:00.000Z''\<rparr>"

definition sample_txs :: "nat \<Rightarrow> Transaction list" where
  "sample_txs n = map (\<lambda>i. sample_tx (''0xc'' @ decimal (int i)) PENDING) [0..<n]"

text \<open>
  Seventeen transactions with short addresses: the hashes of fifteen contain both \<open>a\<close>
  and \<open>b\<close>, one contains only \<open>a\<close>, one only \<open>b\<close>.
\<close>

definition short_tx :: "string \<Rightarrow> Transaction" where
  "short_tx h = sample_tx h PENDING\<lparr>fromAddress := ''0x1'', toAddress := ''0x2''\<rparr>"

definition overlap_rows :: "Transaction list" where
  "overlap_rows =
     map (\<lambda>i. short_tx (''0xab'' @ decimal (int i))) [0..<15] @ [short_tx ''0xa'', short_tx ''0xb'']"

section \<open>Pagination metadata\<close>

lemma totalPages_bounds:
  assumes "0 < ipp"
  shows "(totalPages xs ipp - 1) * ipp < int (length xs)"
    and "int (length xs) \<le> totalPages xs ipp * ipp"
proof -
  let ?n = "of_nat (length xs) :: rat"
  let ?q = "?n / of_int ipp"
  have ipp: "(0::rat) < of_int ipp" using assms by simp
  have "of_int (totalPages xs ipp) - 1 < ?q" unfolding totalPages_def by linarith
  then have "(of_int (totalPages xs ipp) - 1) * of_int ipp < ?n"
    using ipp by (simp add: pos_less_divide_eq)
  then have "(of_int ((totalPages xs ipp - 1) * ipp) :: rat) < of_int (int (length xs))"
    by simp
  then show "(totalPages xs ipp - 1) * ipp < int (length xs)"
    by (simp only: of_int_less_iff)
  have "?q \<le> of_int (totalPages xs ipp)" unfolding totalPages_def by linarith
  then have "?n \<le> of_int (totalPages xs ipp) * of_int ipp"
    using ipp by (simp add: pos_divide_le_eq)
  then have "(of_int (int (length xs)) :: rat) \<le> of_int (totalPages xs ipp * ipp)"
    by simp
  then show "int (length xs) \<le> totalPages xs ipp * ipp"
    by (simp only: of_int_le_iff)
qed

lemma totalPages_div: "0 < ipp \<Longrightarrow> totalPages xs ipp = - ((- int (length xs)) div ipp)"
  unfolding totalPages_def
  by (metis ceiling_divide_eq_div of_int_of_nat_eq)

lemma totalPages_pos: "0 < ipp \<Longrightarrow> xs \<noteq> [] \<Longrightarrow> 1 \<le> totalPages xs ipp"
  unfolding totalPages_def by (simp add: one_le_ceiling)

lemma totalPages_Nil: "totalPages [] ipp = 0"
  by (simp add: totalPages_def)

lemma slice_Nil: "slice [] a b = []"
  by (simp add: slice_def Let_def)

text \<open>
  C1, as the code has it. The code computes \<open>Math.ceil(n / itemsPerPage)\<close> with no lower
  bound of 1. For a positive page size and a non-empty sequence this is the
  \<open>max(1, ceil(n / itemsPerPage))\<close> of the specification, the least number of pages that
  hold all \<open>n\<close> rows; for the empty sequence \<open>totalPages\<close> is 0, not 1, and the visible
  slice is empty.
\<close>

theorem totalPages_amended:
  "0 < ipp \<Longrightarrow>
     (xs \<noteq> [] \<longrightarrow>
        totalPages xs ipp = spec_totalPages (length xs) ipp \<and>
        (totalPages xs ipp - 1) * ipp < int (length xs) \<and>
        int (length xs) \<le> totalPages xs ipp * ipp) \<and>
     (xs = [] \<longrightarrow> totalPages xs ipp = 0 \<and> paginatedTransactions xs cp ipp = [])"
proof (intro conjI impI)
  assume "0 < ipp" "xs \<noteq> []"
  then have "1 \<le> totalPages xs ipp" by (rule totalPages_pos)
  then show "totalPages xs ipp = spec_totalPages (length xs) ipp"
    by (simp add: spec_totalPages_def totalPages_def)
next
  assume "0 < ipp"
  then show "(totalPages xs ipp - 1) * ipp < int (length xs)" by (rule totalPages_bounds)
next
  assume "0 < ipp"
  then show "int (length xs) \<le> totalPages xs ipp * ipp" by (rule totalPages_bounds)
next
  assume "xs = []"
  then show "totalPages xs ipp = 0" by (simp add: totalPages_Nil)
next
  assume "xs = []"
  then show "paginatedTransactions xs cp ipp = []"
    by (simp add: paginatedTransactions_def slice_Nil)
qed

theorem totalPages_amended_witness:
  "(0::int) < 15 \<and> sample_txs 37 \<noteq> [] \<and>
   totalPages (sample_txs 37) 15 = spec_totalPages (length (sample_txs 37)) 15 \<and>
   totalPages (sample_txs 37) 15 = 3 \<and>
   totalPages ([] :: Transaction list) 15 = 0 \<and>
   paginatedTransactions ([] :: Transaction list) 1 15 = []"
proof -
  have h: "(0::int) < 15" by simp
  have ne: "sample_txs 37 \<noteq> []" by (simp add: sample_txs_def)
  have len: "length (sample_txs 37) = 37" by (simp add: sample_txs_def)
  have three: "totalPages (sample_txs 37) 15 = 3"
    by (simp add: totalPages_div len)
  show ?thesis
    using h ne three totalPages_amended [OF h, of "sample_txs 37" 1]
      totalPages_amended [OF h, of "[] :: Transaction list" 1]
    by simp
qed

text \<open>The claim as the specification states it fails for the empty result set: the
  code gives 0 pages where \<open>max(1, ceil(0 / 15))\<close> is 1.\<close>

theorem totalPages_empty_counterexample:
  "totalPages ([] :: Transaction list) 15 \<noteq> spec_totalPages (length ([] :: Transaction list)) 15"
  by (simp add: totalPages_def spec_totalPages_def)

section \<open>Export trigger\<close>

text \<open>
  C7. Triggering the export on an empty collection does nothing: \<open>handleExport\<close> returns
  before \<open>exportTransactionsToXLSX\<close> is called, so no document is built and no file is
  written; and the empty collection is the only one for which that happens.
\<close>

theorem export_empty_noop:
  "handleExport P today [] = None \<and> (handleExport P today txs = None) = (txs = [])"
  by (simp add: handleExport_def)

section \<open>Formatters\<close>

text \<open>
  C10. For an amount that \<open>parseFloat\<close> does not parse, \<open>formatAmount\<close> returns the string
  \<open>0 ${symbol}\<close> as it stands in the source, whatever the symbol argument is.
\<close>

theorem formatAmount_unparseable:
  "parseFloat P a = NaN \<Longrightarrow> formatAmount P a symbol = ''0 ${symbol}''"
  by (simp add: formatAmount_def isNaN_def)

theorem formatAmount_unparseable_witness:
  "parseFloat sample_platform ''abc'' = NaN \<and>
   formatAmount sample_platform ''abc'' ''ETH'' = ''0 ${symbol}'' \<and>
   formatAmount sample_platform ''abc'' ''BTC'' = ''0 ${symbol}''"
proof -
  have h: "parseFloat sample_platform ''abc'' = NaN" by code_simp
  show ?thesis
    using h formatAmount_unparseable [OF h, of "''ETH''"]
      formatAmount_unparseable [OF h, of "''BTC''"]
    by simp
qed

section \<open>The visible slice\<close>

lemma filter_interval_upt:
  "filter (\<lambda>i. a \<le> i \<and> i < b) [0..<n] = [a..<min b n]"
proof (induction n)
  case 0
  then show ?case by simp
next
  case (Suc n)
  show ?case
  proof (cases "a \<le> n \<and> n < b")
    case True
    then have "min b (Suc n) = Suc n" "min b n = n" "a \<le> n" by simp_all
    then have "[a..<min b (Suc n)] = [a..<min b n] @ [n]"
      by simp
    with Suc True show ?thesis by simp
  next
    case False
    then have "[a..<min b (Suc n)] = [a..<min b n]"
      by (auto simp: min_def)
    with Suc False show ?thesis by simp
  qed
qed

lemma map_nth_upt_take_drop:
  "b \<le> length xs \<Longrightarrow> map (\<lambda>i. xs ! i) [a..<b] = take (b - a) (drop a xs)"
  by (rule nth_equalityI) auto

lemma elements_in_range_take_drop:
  assumes "0 \<le> lo"
  shows "elements_in_range xs lo hi = take (nat hi - nat lo) (drop (nat lo) xs)"
proof -
  have "(\<lambda>i. lo \<le> int i \<and> int i < hi) = (\<lambda>i. nat lo \<le> i \<and> i < nat hi)"
    using assms by (auto simp: fun_eq_iff)
  then have "elements_in_range xs lo hi = map (\<lambda>i. xs ! i) [nat lo..<min (nat hi) (length xs)]"
    by (simp add: elements_in_range_def filter_interval_upt)
  also have "\<dots> = take (min (nat hi) (length xs) - nat lo) (drop (nat lo) xs)"
    by (rule map_nth_upt_take_drop) simp
  also have "\<dots> = take (nat hi - nat lo) (drop (nat lo) xs)"
    by (cases "nat hi \<le> length xs") (simp_all add: min_def)
  finally show ?thesis .
qed

lemma nat_max_diff: "0 \<le> lo \<Longrightarrow> 0 \<le> hi \<Longrightarrow> nat (max (hi - lo) 0) = nat hi - nat lo"
  by (simp add: max_def nat_diff_distrib')

lemma slice_take_drop:
  assumes "0 \<le> lo" "0 \<le> hi"
  shows "slice xs lo hi = take (nat hi - nat lo) (drop (nat lo) xs)"
proof (cases "nat lo \<le> length xs")
  case True
  then have k: "min lo (int (length xs)) = lo" using assms by simp
  show ?thesis
  proof (cases "nat hi \<le> length xs")
    case True
    then have "min hi (int (length xs)) = hi" using assms by simp
    with k assms show ?thesis
      by (simp add: slice_def Let_def nat_max_diff)
  next
    case False
    then have "min hi (int (length xs)) = int (length xs)" by simp
    with k assms False \<open>nat lo \<le> length xs\<close> show ?thesis
      by (simp add: slice_def Let_def nat_max_diff)
  qed
next
  case False
  then show ?thesis using assms by (simp add: slice_def Let_def)
qed

lemma paginated_range:
  assumes "1 \<le> cp" "0 < ipp"
  shows "paginatedTransactions xs cp ipp = elements_in_range xs ((cp - 1) * ipp) (cp * ipp)"
proof -
  have lo: "0 \<le> (cp - 1) * ipp" using assms by simp
  have hi: "0 \<le> (cp - 1) * ipp + ipp" using assms lo by simp
  have eq: "(cp - 1) * ipp + ipp = cp * ipp" by (simp add: algebra_simps)
  show ?thesis
    unfolding paginatedTransactions_def startIndex_def endIndex_def
    using slice_take_drop [OF lo hi] elements_in_range_take_drop [OF lo, of xs "cp * ipp"]
    by (simp add: eq)
qed

text \<open>
  C6. For a page number from 1 on and a positive page size, the visible slice is exactly
  the elements at the indices from \<open>(currentPage - 1) * itemsPerPage\<close> up to, not
  including, \<open>currentPage * itemsPerPage\<close>, clipped to the sequence. With 37 rows and 15
  per page there are 3 pages, and page 3 shows the 7 rows at the indices 30 to 36.
\<close>

theorem visible_slice_is_index_range:
  "(1 \<le> cp \<and> 0 < ipp \<longrightarrow>
      paginatedTransactions xs cp ipp = elements_in_range xs ((cp - 1) * ipp) (cp * ipp)) \<and>
   (length ys = 37 \<longrightarrow>
      totalPages ys 15 = 3 \<and>
      paginatedTransactions ys 3 15 = map (\<lambda>i. ys ! i) [30..<37] \<and>
      length (paginatedTransactions ys 3 15) = 7)"
proof (intro conjI impI)
  assume "1 \<le> cp \<and> 0 < ipp"
  then show "paginatedTransactions xs cp ipp = elements_in_range xs ((cp - 1) * ipp) (cp * ipp)"
    by (simp add: paginated_range)
next
  assume len: "length ys = 37"
  show "totalPages ys 15 = 3" by (simp add: totalPages_div len)
  have "paginatedTransactions ys 3 15 = elements_in_range ys 30 45"
    using paginated_range [of 3 15 ys] by simp
  also have "\<dots> = take 15 (drop 30 ys)"
    using elements_in_range_take_drop [of 30 ys 45] by simp
  also have "\<dots> = drop 30 ys" using len by simp
  finally have d: "paginatedTransactions ys 3 15 = drop 30 ys" .
  have "map (\<lambda>i. ys ! i) [30..<37] = take (37 - 30) (drop 30 ys)"
    by (rule map_nth_upt_take_drop) (simp add: len)
  then show "paginatedTransactions ys 3 15 = map (\<lambda>i. ys ! i) [30..<37]"
    using d len by simp
  show "length (paginatedTransactions ys 3 15) = 7" using d len by simp
qed

theorem visible_slice_is_index_range_witness:
  "(1::int) \<le> 3 \<and> (0::int) < 15 \<and> length (sample_txs 37) = 37 \<and>
   paginatedTransactions (sample_txs 37) 3 15 = elements_in_range (sample_txs 37) ((3 - 1) * 15) (3 * 15) \<and>
   totalPages (sample_txs 37) 15 = 3 \<and>
   paginatedTransactions (sample_txs 37) 3 15 = map (\<lambda>i. sample_txs 37 ! i) [30..<37] \<and>
   length (paginatedTransactions (sample_txs 37) 3 15) = 7 \<and>
   map hash (paginatedTransactions (sample_txs 37) 3 15) =
     [''0xc30'', ''0xc31'', ''0xc32'', ''0xc33'', ''0xc34'', ''0xc35'', ''0xc36'']"
proof -
  let ?S = "sample_txs 37"
  have h: "(1::int) \<le> 3 \<and> (0::int) < 15" by simp
  have len: "length ?S = 37" by (simp add: sample_txs_def)
  note t = visible_slice_is_index_range [of 3 15 ?S ?S]
  have a: "paginatedTransactions ?S 3 15 = elements_in_range ?S ((3 - 1) * 15) (3 * 15)"
    using t h by blast
  have b: "totalPages ?S 15 = 3 \<and>
      paginatedTransactions ?S 3 15 = map (\<lambda>i. ?S ! i) [30..<37] \<and>
      length (paginatedTransactions ?S 3 15) = 7"
    using t len by blast
  have hashes: "map hash (paginatedTransactions ?S 3 15) =
     [''0xc30'', ''0xc31'', ''0xc32'', ''0xc33'', ''0xc34'', ''0xc35'', ''0xc36'']"
    by code_simp
  show ?thesis
    using h len a b hashes by blast
qed

section \<open>Effective time\<close>

text \<open>The date the code reads from a transaction is the effective time of the
  specification.\<close>

lemma truthy_absent: "truthy v = (\<not> absent v)"
  by (cases v) (simp_all add: truthy_def absent_def)

lemma or_else_effective: "or_else (timestamp tx) (createdAt tx) = spec_effective tx"
  by (simp add: or_else_def spec_effective_def truthy_absent)

lemma txDate_effective: "txDate P tx = spec_effective_time P tx"
  by (simp add: txDate_def spec_effective_time_def or_else_effective or_default_def truthy_absent)

section \<open>Comparator\<close>

lemma num_lt_NaN_right: "\<not> num_lt x NaN"
  by (cases x) simp_all

lemma compare_keys_NaN:
  "compare_keys num_lt dir NaN y = 0" "compare_keys num_lt dir y NaN = 0"
  by (simp_all add: compare_keys_def num_lt_NaN_right)

lemma compare_keys_Fin:
  "compare_keys num_lt Asc (Fin x) (Fin y) = (if x < y then - 1 else if y < x then 1 else 0)"
  "compare_keys num_lt Desc (Fin x) (Fin y) = (if x < y then 1 else if y < x then - 1 else 0)"
  by (simp_all add: compare_keys_def)

text \<open>
  C4, as the code has it. The comparator substitutes no sentinel: an unparseable effective
  time or amount is \<open>NaN\<close>, both \<open><\<close> and \<open>>\<close> are false on it, and the comparator returns 0,
  so such a transaction ties with every other one in both directions instead of sorting
  as the oldest or as amount 0. When both keys are finite numbers \<open>x\<close> and \<open>y\<close>, the result
  in ascending direction is \<open>-1\<close> for \<open>x < y\<close>, \<open>1\<close> for \<open>y < x\<close> and 0 for equal keys, and the
  descending direction swaps \<open>-1\<close> and \<open>1\<close>. The key under \<open>timestamp\<close> is the effective time:
  the \<open>timestamp\<close> field, or \<open>createdAt\<close> if that is absent.
\<close>

theorem comparator_unparseable_ties:
  "(spec_effective_time P a = NaN \<longrightarrow>
      comparator P Timestamp dir a b = 0 \<and> comparator P Timestamp dir b a = 0) \<and>
   (parseFloat P (amount a) = NaN \<longrightarrow>
      comparator P Amount dir a b = 0 \<and> comparator P Amount dir b a = 0) \<and>
   (spec_effective_time P a = Fin x \<and> spec_effective_time P b = Fin y \<longrightarrow>
      comparator P Timestamp Asc a b = (if x < y then - 1 else if y < x then 1 else 0) \<and>
      comparator P Timestamp Desc a b = (if x < y then 1 else if y < x then - 1 else 0)) \<and>
   (parseFloat P (amount a) = Fin x \<and> parseFloat P (amount b) = Fin y \<longrightarrow>
      comparator P Amount Asc a b = (if x < y then - 1 else if y < x then 1 else 0) \<and>
      comparator P Amount Desc a b = (if x < y then 1 else if y < x then - 1 else 0))"
  by (simp add: comparator_def compare_keys_NaN compare_keys_Fin txDate_effective)

theorem comparator_unparseable_ties_witness:
  "spec_effective_time sample_platform (sample_tx ''0xc0'' PENDING\<lparr>createdAt := None\<rparr>) = NaN \<and>
   comparator sample_platform Timestamp Asc
     (sample_tx ''0xc0'' PENDING\<lparr>createdAt := None\<rparr>) (sample_tx ''0xc1'' PENDING) = 0 \<and>
   comparator sample_platform Timestamp Asc
     (sample_tx ''0xc1'' PENDING) (sample_tx ''0xc0'' PENDING\<lparr>createdAt := None\<rparr>) = 0 \<and>
   parseFloat sample_platform (amount (sample_tx ''0xc0'' PENDING\<lparr>amount := ''abc''\<rparr>)) = NaN \<and>
   comparator sample_platform Amount Desc
     (sample_tx ''0xc0'' PENDING\<lparr>amount := ''abc''\<rparr>) (sample_tx ''0xc1'' PENDING) = 0 \<and>
   comparator sample_platform Amount Desc
     (sample_tx ''0xc1'' PENDING) (sample_tx ''0xc0'' PENDING\<lparr>amount := ''abc''\<rparr>) = 0 \<and>
   spec_effective_time sample_platform
     (sample_tx ''0xc2'' PENDING\<lparr>amount := ''0.25'', timestamp := Some ''1970-01-01T00:00:01.000Z''\<rparr>)
     = Fin 1000 \<and>
   spec_effective_time sample_platform (sample_tx ''0xc1'' PENDING) = Fin 1705329000000 \<and>
   comparator sample_platform Timestamp Asc
     (sample_tx ''0xc2'' PENDING\<lparr>amount := ''0.25'', timestamp := Some ''1970-01-01T00:00:01.000Z''\<rparr>)
     (sample_tx ''0xc1'' PENDING) = - 1 \<and>
   comparator sample_platform Timestamp Desc
     (sample_tx ''0xc2'' PENDING\<lparr>amount := ''0.25'', timestamp := Some ''1970-01-01T00:00:01.000Z''\<rparr>)
     (sample_tx ''0xc1'' PENDING) = 1 \<and>
   parseFloat sample_platform (amount
     (sample_tx ''0xc2'' PENDING\<lparr>amount := ''0.25'', timestamp := Some ''1970-01-01T00:00:01.000Z''\<rparr>))
     = Fin (1 / 4) \<and>
   parseFloat sample_platform (amount (sample_tx ''0xc1'' PENDING)) = Fin (3 / 2) \<and>
   comparator sample_platform Amount Asc
     (sample_tx ''0xc1'' PENDING)
     (sample_tx ''0xc2'' PENDING\<lparr>amount := ''0.25'', timestamp := Some ''1970-01-01T00:00:01.000Z''\<rparr>)
     = 1 \<and>
   comparator sample_platform Amount Desc
     (sample_tx ''0xc1'' PENDING)
     (sample_tx ''0xc2'' PENDING\<lparr>amount := ''0.25'', timestamp := Some ''1970-01-01T00:00:01.000Z''\<rparr>)
     = - 1"
proof -
  let ?u = "sample_tx ''0xc0'' PENDING\<lparr>createdAt := None\<rparr>"
  let ?m = "sample_tx ''0xc0'' PENDING\<lparr>amount := ''abc''\<rparr>"
  let ?t = "sample_tx ''0xc1'' PENDING"
  let ?e = "sample_tx ''0xc2'' PENDING\<lparr>amount := ''0.25'',
     timestamp := Some ''1970-01-01T00:00:01.000Z''\<rparr>"
  have u: "spec_effective_time sample_platform ?u = NaN" by code_simp
  have m: "parseFloat sample_platform (amount ?m) = NaN" by code_simp
  have t: "spec_effective_time sample_platform ?t = Fin 1705329000000" by code_simp
  have e: "spec_effective_time sample_platform ?e = Fin 1000" by code_simp
  have p: "parseFloat sample_platform (amount ?t) = Fin (3 / 2)" by code_simp
  have q: "parseFloat sample_platform (amount ?e) = Fin (1 / 4)" by code_simp
  have ties: "comparator sample_platform Timestamp Asc ?u ?t = 0 \<and>
      comparator sample_platform Timestamp Asc ?t ?u = 0"
    using u comparator_unparseable_ties [of sample_platform ?u Asc ?t] by blast
  have ties': "comparator sample_platform Amount Desc ?m ?t = 0 \<and>
      comparator sample_platform Amount Desc ?t ?m = 0"
    using m comparator_unparseable_ties [of sample_platform ?m Desc ?t] by blast
  have "comparator sample_platform Timestamp Asc ?e ?t =
        (if (1000::rat) < 1705329000000 then - 1 else if (1705329000000::rat) < 1000 then 1 else 0) \<and>
      comparator sample_platform Timestamp Desc ?e ?t =
        (if (1000::rat) < 1705329000000 then 1 else if (1705329000000::rat) < 1000 then - 1 else 0)"
    using e t comparator_unparseable_ties [of sample_platform ?e Asc ?t 1000 1705329000000]
    by blast
  then have time: "comparator sample_platform Timestamp Asc ?e ?t = - 1 \<and>
      comparator sample_platform Timestamp Desc ?e ?t = 1"
    by simp
  have "comparator sample_platform Amount Asc ?t ?e =
        (if (3 / 2 :: rat) < 1 / 4 then - 1 else if (1 / 4 :: rat) < 3 / 2 then 1 else 0) \<and>
      comparator sample_platform Amount Desc ?t ?e =
        (if (3 / 2 :: rat) < 1 / 4 then 1 else if (1 / 4 :: rat) < 3 / 2 then - 1 else 0)"
    using p q comparator_unparseable_ties [of sample_platform ?t Asc ?e "3 / 2" "1 / 4"]
    by blast
  then have amt: "comparator sample_platform Amount Asc ?t ?e = 1 \<and>
      comparator sample_platform Amount Desc ?t ?e = - 1"
    by simp
  show ?thesis using u m t e p q ties ties' time amt by blast
qed

text \<open>The claim as stated fails: with the sentinel 0 a transaction without a time would
  come before one dated 2024 in ascending order, and an amount \<open>abc\<close> before \<open>1.5\<close>; the
  code returns 0 for both pairs.\<close>

theorem comparator_sentinel_counterexample:
  "comparator sample_platform Timestamp Asc
     (sample_tx ''0xc0'' PENDING\<lparr>createdAt := None\<rparr>) (sample_tx ''0xc1'' PENDING) = 0 \<and>
   spec_comparator sample_platform Timestamp Asc
     (sample_tx ''0xc0'' PENDING\<lparr>createdAt := None\<rparr>) (sample_tx ''0xc1'' PENDING) = - 1 \<and>
   comparator sample_platform Amount Asc
     (sample_tx ''0xc0'' PENDING\<lparr>amount := ''abc''\<rparr>) (sample_tx ''0xc1'' PENDING) = 0 \<and>
   spec_comparator sample_platform Amount Asc
     (sample_tx ''0xc0'' PENDING\<lparr>amount := ''abc''\<rparr>) (sample_tx ''0xc1'' PENDING) = - 1"
  by code_simp

section \<open>Filter predicate composer\<close>

lemma spec_at_most_NaN_right: "\<not> spec_at_most a NaN"
  by (cases a) simp_all

lemma num_le_at_most: "num_le a b = spec_at_most a b"
  by (cases a; cases b) (auto simp: num_le_def)

lemma num_ge_at_most: "num_ge a b = spec_at_most b a"
  by (cases a; cases b) (auto simp: num_ge_def)

lemma startsWith_prefix: "startsWith s q = prefix q s"
  by (induction s q rule: startsWith.induct) auto

lemma str_includes_sublist: "str_includes s q = sublist q s"
proof (induction s)
  case Nil
  then show ?case by (cases q) simp_all
next
  case (Cons d s)
  then show ?case by (simp add: startsWith_prefix sublist_Cons_right)
qed

lemma filteredTransactions_filter:
  "filteredTransactions P txs vs = filter (spec_survives P vs) txs"
proof -
  have st: "(if length (selectedStatuses vs) > 0
             then filter (\<lambda>tx. List.member (selectedStatuses vs) (status tx)) txs else txs)
            = filter (spec_status_ok vs) txs"
    by (cases "selectedStatuses vs") (auto simp: spec_status_ok_def intro!: filter_cong)
  show ?thesis
    unfolding filteredTransactions_def Let_def st
    by (cases "dateFrom vs"; cases "dateTo vs"; cases "searchQuery vs = []")
       (auto simp: spec_survives_def spec_date_ok_def spec_search_ok_def ci_substring_def
          str_includes_sublist num_ge_at_most num_le_at_most txDate_effective
          spec_at_most_NaN_right intro!: filter_cong)
qed

lemma filter_length_mono:
  "(\<And>x. x \<in> set xs \<Longrightarrow> p x \<Longrightarrow> q x) \<Longrightarrow> length (filter p xs) \<le> length (filter q xs)"
  by (induction xs) auto

lemma spec_survives_statuses_update:
  "spec_survives P (vs\<lparr>selectedStatuses := sel\<rparr>) tx =
     ((sel = [] \<or> status tx \<in> set sel) \<and> spec_date_ok P vs tx \<and> spec_search_ok P vs tx)"
  by (simp add: spec_survives_def spec_status_ok_def spec_date_ok_def spec_search_ok_def)

text \<open>
  C5. A transaction survives the filter exactly when it is in the collection and passes
  the status criterion, the date-range criterion and the search criterion together. The
  date-range criterion is on the effective time (the \<open>timestamp\<close> field, or \<open>createdAt\<close> if
  that is absent), which fails every active bound when it is unparseable; the search
  criterion is a substring match after lower-casing, whatever letters the platform
  lowers. With no status selected, no date bound and the empty query the filtered
  collection is the raw collection.
\<close>

theorem filter_composition:
  "filteredTransactions P txs vs = filter (spec_survives P vs) txs \<and>
   (tx \<in> set (filteredTransactions P txs vs)) = (tx \<in> set txs \<and> spec_survives P vs tx) \<and>
   (selectedStatuses vs = [] \<and> dateFrom vs = None \<and> dateTo vs = None \<and> searchQuery vs = []
      \<longrightarrow> filteredTransactions P txs vs = txs)"
proof -
  have "spec_survives P vs = (\<lambda>tx. True)"
    if "selectedStatuses vs = [] \<and> dateFrom vs = None \<and> dateTo vs = None \<and> searchQuery vs = []"
    using that
    by (simp add: fun_eq_iff spec_survives_def spec_status_ok_def spec_date_ok_def spec_search_ok_def)
  then show ?thesis
    by (simp add: filteredTransactions_filter)
qed

theorem filter_composition_witness:
  "selectedStatuses initial = [] \<and> dateFrom initial = None \<and> dateTo initial = None \<and>
   searchQuery initial = [] \<and>
   filteredTransactions sample_platform
     [sample_tx ''0xC1'' PENDING, sample_tx ''0xc2'' CONFIRMED,
      sample_tx ''0xc3'' PENDING\<lparr>createdAt := None\<rparr>] initial =
     [sample_tx ''0xC1'' PENDING, sample_tx ''0xc2'' CONFIRMED,
      sample_tx ''0xc3'' PENDING\<lparr>createdAt := None\<rparr>] \<and>
   filteredTransactions sample_platform
     [sample_tx ''0xC1'' PENDING,
      sample_tx ''0xc2'' CONFIRMED,
      sample_tx ''0xc3'' PENDING\<lparr>createdAt := None\<rparr>,
      sample_tx ''0xc4'' PENDING\<lparr>timestamp := Some ''2024-01-15T08:00:00.000Z'',
        createdAt := Some ''2023-06-01T00:00:00.000Z''\<rparr>,
      sample_tx ''0xc5'' FAILED\<lparr>timestamp := Some ''2023-06-01T00:00:00.000Z''\<rparr>,
      sample_tx ''0xd6'' PENDING]
     (initial\<lparr>selectedStatuses := [PENDING, FAILED], dateFrom := Some (Fin 1705276800000),
        dateTo := Some (Fin 1705276800000), searchQuery := ''0Xc''\<rparr>) =
     [sample_tx ''0xC1'' PENDING,
      sample_tx ''0xc4'' PENDING\<lparr>timestamp := Some ''2024-01-15T08:00:00.000Z'',
        createdAt := Some ''2023-06-01T00:00:00.000Z''\<rparr>] \<and>
   sample_tx ''0xc5'' FAILED\<lparr>timestamp := Some ''2023-06-01T00:00:00.000Z''\<rparr>
     \<notin> set (filteredTransactions sample_platform
     [sample_tx ''0xC1'' PENDING,
      sample_tx ''0xc2'' CONFIRMED,
      sample_tx ''0xc3'' PENDING\<lparr>createdAt := None\<rparr>,
      sample_tx ''0xc4'' PENDING\<lparr>timestamp := Some ''2024-01-15T08:00:00.000Z'',
        createdAt := Some ''2023-06-01T00:00:00.000Z''\<rparr>,
      sample_tx ''0xc5'' FAILED\<lparr>timestamp := Some ''2023-06-01T00:00:00.000Z''\<rparr>,
      sample_tx ''0xd6'' PENDING]
     (initial\<lparr>selectedStatuses := [PENDING, FAILED], dateFrom := Some (Fin 1705276800000),
        dateTo := Some (Fin 1705276800000), searchQuery := ''0Xc''\<rparr>))"
proof -
  let ?raw = "[sample_tx ''0xC1'' PENDING, sample_tx ''0xc2'' CONFIRMED,
      sample_tx ''0xc3'' PENDING\<lparr>createdAt := None\<rparr>]"
  let ?r4 = "sample_tx ''0xc4'' PENDING\<lparr>timestamp := Some ''2024-01-15T08:00:00.000Z'',
        createdAt := Some ''2023-06-01T00:00:00.000Z''\<rparr>"
  let ?r5 = "sample_tx ''0xc5'' FAILED\<lparr>timestamp := Some ''2023-06-01T00:00:00.000Z''\<rparr>"
  let ?txs = "[sample_tx ''0xC1'' PENDING, sample_tx ''0xc2'' CONFIRMED,
      sample_tx ''0xc3'' PENDING\<lparr>createdAt := None\<rparr>, ?r4, ?r5, sample_tx ''0xd6'' PENDING]"
  let ?vs = "initial\<lparr>selectedStatuses := [PENDING, FAILED], dateFrom := Some (Fin 1705276800000),
        dateTo := Some (Fin 1705276800000), searchQuery := ''0Xc''\<rparr>"
  have h: "selectedStatuses initial = [] \<and> dateFrom initial = None \<and> dateTo initial = None \<and>
   searchQuery initial = []"
    by (simp add: initial_def)
  have a: "filteredTransactions sample_platform ?raw initial = ?raw"
    using filter_composition [of sample_platform ?raw initial] h by blast
  have "filter (spec_survives sample_platform ?vs) ?txs = [sample_tx ''0xC1'' PENDING, ?r4]"
    by code_simp
  then have b: "filteredTransactions sample_platform ?txs ?vs = [sample_tx ''0xC1'' PENDING, ?r4]"
    using filter_composition [of sample_platform ?txs ?vs] by simp
  have "\<not> spec_survives sample_platform ?vs ?r5" by code_simp
  then have c: "?r5 \<notin> set (filteredTransactions sample_platform ?txs ?vs)"
    using filter_composition [of sample_platform ?txs ?vs ?r5] by blast
  show ?thesis using h a b c by blast
qed

text \<open>
  C2, as the code has it. The status criterion is membership in the selection, so adding
  a status to a non-empty selection never decreases the number of surviving
  transactions (it can increase it); no selection lets through at least as many
  transactions as any selection does, namely those that pass the date and search
  criteria, and all of them when there is no date bound and no query.
\<close>

theorem status_filter_monotone:
  "length (filteredTransactions P txs vs)
     \<le> length (filteredTransactions P txs (vs\<lparr>selectedStatuses := []\<rparr>)) \<and>
   (selectedStatuses vs \<noteq> [] \<and> st \<notin> set (selectedStatuses vs) \<longrightarrow>
      length (filteredTransactions P txs vs)
        \<le> length (filteredTransactions P txs
             (vs\<lparr>selectedStatuses := handleStatusToggle (selectedStatuses vs) st\<rparr>))) \<and>
   filteredTransactions P txs (vs\<lparr>selectedStatuses := []\<rparr>)
     = filter (\<lambda>tx. spec_date_ok P vs tx \<and> spec_search_ok P vs tx) txs \<and>
   (dateFrom vs = None \<and> dateTo vs = None \<and> searchQuery vs = [] \<longrightarrow>
      length (filteredTransactions P txs (vs\<lparr>selectedStatuses := []\<rparr>)) = length txs)"
proof (intro conjI impI)
  show "length (filteredTransactions P txs vs)
     \<le> length (filteredTransactions P txs (vs\<lparr>selectedStatuses := []\<rparr>))"
    unfolding filteredTransactions_filter
    by (rule filter_length_mono) (simp add: spec_survives_statuses_update, simp add: spec_survives_def)
next
  assume a: "selectedStatuses vs \<noteq> [] \<and> st \<notin> set (selectedStatuses vs)"
  then have t: "handleStatusToggle (selectedStatuses vs) st = selectedStatuses vs @ [st]"
    by (simp add: handleStatusToggle_def)
  show "length (filteredTransactions P txs vs)
        \<le> length (filteredTransactions P txs
             (vs\<lparr>selectedStatuses := handleStatusToggle (selectedStatuses vs) st\<rparr>))"
    unfolding filteredTransactions_filter t
    by (rule filter_length_mono)
       (simp add: spec_survives_statuses_update, use a in \<open>auto simp: spec_survives_def spec_status_ok_def\<close>)
next
  show "filteredTransactions P txs (vs\<lparr>selectedStatuses := []\<rparr>)
     = filter (\<lambda>tx. spec_date_ok P vs tx \<and> spec_search_ok P vs tx) txs"
    unfolding filteredTransactions_filter
    by (rule filter_cong) (simp_all add: spec_survives_statuses_update)
next
  assume "dateFrom vs = None \<and> dateTo vs = None \<and> searchQuery vs = []"
  then have "spec_survives P (vs\<lparr>selectedStatuses := []\<rparr>) = (\<lambda>tx. True)"
    by (simp add: fun_eq_iff spec_survives_statuses_update spec_date_ok_def spec_search_ok_def)
  then show "length (filteredTransactions P txs (vs\<lparr>selectedStatuses := []\<rparr>)) = length txs"
    by (simp add: filteredTransactions_filter)
qed

theorem status_filter_monotone_witness:
  "selectedStatuses (initial\<lparr>selectedStatuses := [PENDING]\<rparr>) \<noteq> [] \<and>
   CONFIRMED \<notin> set (selectedStatuses (initial\<lparr>selectedStatuses := [PENDING]\<rparr>)) \<and>
   dateFrom (initial\<lparr>selectedStatuses := [PENDING]\<rparr>) = None \<and>
   dateTo (initial\<lparr>selectedStatuses := [PENDING]\<rparr>) = None \<and>
   searchQuery (initial\<lparr>selectedStatuses := [PENDING]\<rparr>) = [] \<and>
   length (filteredTransactions sample_platform
      [sample_tx ''0xc1'' PENDING, sample_tx ''0xc2'' CONFIRMED, sample_tx ''0xc3'' FAILED]
      (initial\<lparr>selectedStatuses := [PENDING]\<rparr>))
     \<le> length (filteredTransactions sample_platform
      [sample_tx ''0xc1'' PENDING, sample_tx ''0xc2'' CONFIRMED, sample_tx ''0xc3'' FAILED]
      (initial\<lparr>selectedStatuses := [PENDING],
         selectedStatuses := handleStatusToggle (selectedStatuses (initial\<lparr>selectedStatuses := [PENDING]\<rparr>)) CONFIRMED\<rparr>)) \<and>
   length (filteredTransactions sample_platform
      [sample_tx ''0xc1'' PENDING, sample_tx ''0xc2'' CONFIRMED, sample_tx ''0xc3'' FAILED]
      (initial\<lparr>selectedStatuses := [PENDING], selectedStatuses := []\<rparr>)) = 3"
proof -
  let ?vs = "initial\<lparr>selectedStatuses := [PENDING]\<rparr>"
  let ?txs = "[sample_tx ''0xc1'' PENDING, sample_tx ''0xc2'' CONFIRMED, sample_tx ''0xc3'' FAILED]"
  have h1: "selectedStatuses ?vs \<noteq> [] \<and> CONFIRMED \<notin> set (selectedStatuses ?vs)" by simp
  have h2: "dateFrom ?vs = None \<and> dateTo ?vs = None \<and> searchQuery ?vs = []"
    by (simp add: initial_def)
  have len: "length ?txs = 3" by simp
  note t = status_filter_monotone [of sample_platform ?txs ?vs CONFIRMED]
  have a: "length (filteredTransactions sample_platform ?txs ?vs)
        \<le> length (filteredTransactions sample_platform ?txs
             (?vs\<lparr>selectedStatuses := handleStatusToggle (selectedStatuses ?vs) CONFIRMED\<rparr>))"
    using t h1 by blast
  have b: "length (filteredTransactions sample_platform ?txs (?vs\<lparr>selectedStatuses := []\<rparr>)) = length ?txs"
    using t h2 by blast
  show ?thesis
    using h1 h2 a b len by (metis (no_types, lifting))
qed

text \<open>The claim as stated fails: with one pending and one confirmed transaction and
  \<open>pending\<close> selected, adding \<open>confirmed\<close> raises the count from 1 to 2.\<close>

theorem status_filter_counterexample:
  "length (filteredTransactions sample_platform
      [sample_tx ''0xc1'' PENDING, sample_tx ''0xc2'' CONFIRMED]
      (initial\<lparr>selectedStatuses := [PENDING]\<rparr>)) = 1 \<and>
   length (filteredTransactions sample_platform
      [sample_tx ''0xc1'' PENDING, sample_tx ''0xc2'' CONFIRMED]
      (initial\<lparr>selectedStatuses := handleStatusToggle [PENDING] CONFIRMED\<rparr>)) = 2"
  by code_simp

section \<open>Export serializer\<close>












section \<open>View state controller\<close>

text \<open>
  The bounds of the page hold in every state the intents lead to, counting a state once
  the effects of its render have run (the render before the effect shows the old page
  over the new list). A failed load takes the list off the page; it starts again from
  page 1 when it comes back, which is not part of the model.
\<close>

lemma run_snoc: "run P (intents @ [i]) = step P (run P intents) i"
  by (simp add: run_def)

lemma totalPages_length_cong: "length xs = length ys \<Longrightarrow> totalPages xs ipp = totalPages ys ipp"
  by (simp add: totalPages_def)

lemma visible_page_fields [simp]:
  "visible P (s\<lparr>currentPage := p\<rparr>) = visible P s"
  "visible P (s\<lparr>sortField := f\<rparr>) = visible P s"
  "visible P (s\<lparr>sortDirection := d\<rparr>) = visible P s"
  "visible P (s\<lparr>itemsPerPage := n\<rparr>) = visible P s"
  by (simp_all add: visible_def filteredTransactions_filter fun_eq_iff spec_survives_def
        spec_status_ok_def spec_date_ok_def spec_search_ok_def cong: filter_cong)

lemma page_ok_reset:
  assumes "page_ok P s" "currentPage s' = currentPage s" "itemsPerPage s' = itemsPerPage s"
  shows "page_ok P (page_reset_effect P s s')"
proof (cases "length (visible P s') = length (visible P s)")
  case True
  then have "totalPages (visible P s') (itemsPerPage s) = totalPages (visible P s) (itemsPerPage s)"
    by (rule totalPages_length_cong)
  with assms True show ?thesis by (simp add: page_ok_def page_reset_effect_def)
next
  case False
  with assms show ?thesis by (simp add: page_ok_def page_reset_effect_def)
qed

lemma page_ok_move:
  assumes "page_ok P s" "1 \<le> p" "p \<le> max 1 (totalPages (visible P s) (itemsPerPage s))"
  shows "page_ok P (page_reset_effect P s (s\<lparr>currentPage := p\<rparr>))"
  using assms by (simp add: page_ok_def page_reset_effect_def)

lemma pageNum_in_range:
  assumes "1 < tp" "1 \<le> cp" "cp \<le> tp" "0 \<le> i" "i < min 5 tp"
  shows "1 \<le> pageNum tp cp i \<and> pageNum tp cp i \<le> tp"
  using assms by (auto simp: pageNum_def)

lemma page_ok_step: "page_ok P s \<Longrightarrow> page_ok P (step P s i)"
proof (cases i)
  case (StatusChange sel)
  assume "page_ok P s" then show ?thesis
    unfolding step_def StatusChange by (simp add: page_ok_reset)
next
  case (DateFromChange d)
  assume "page_ok P s" then show ?thesis
    unfolding step_def DateFromChange by (simp add: page_ok_reset)
next
  case (DateToChange d)
  assume "page_ok P s" then show ?thesis
    unfolding step_def DateToChange by (simp add: page_ok_reset)
next
  case (SearchChange q)
  assume "page_ok P s" then show ?thesis
    unfolding step_def SearchChange by (simp add: page_ok_reset)
next
  case ClearFilters
  assume "page_ok P s" then show ?thesis
    unfolding step_def ClearFilters by (simp add: page_ok_reset handleClearFilters_def)
next
  case (SetTransactions txs)
  assume "page_ok P s" then show ?thesis
    unfolding step_def SetTransactions by (simp add: page_ok_reset)
next
  case (Sort f)
  assume "page_ok P s" then show ?thesis
    unfolding step_def Sort
    by (auto simp: page_ok_def page_reset_effect_def handleSort_def)
next
  case (ItemsPerPageChange v)
  assume "page_ok P s" then show ?thesis
    unfolding step_def ItemsPerPageChange
    by (auto simp: page_ok_def page_reset_effect_def handleItemsPerPageChange_def
          itemsPerPageOptions_def)
next
  case Previous
  assume ok: "page_ok P s"
  show ?thesis
  proof (cases "enabled P s Previous")
    case True
    let ?tp = "totalPages (visible P s) (itemsPerPage s)"
    from True ok have "1 \<le> max 1 (currentPage s - 1)"
      and "max 1 (currentPage s - 1) \<le> max 1 ?tp"
      by (simp_all add: page_ok_def)
    with ok have "page_ok P (page_reset_effect P s (s\<lparr>currentPage := max 1 (currentPage s - 1)\<rparr>))"
      by (rule page_ok_move)
    with True show ?thesis by (auto simp: step_def Previous)
  next
    case False
    with ok show ?thesis by (auto simp: step_def Previous)
  qed
next
  case Next
  assume ok: "page_ok P s"
  show ?thesis
  proof (cases "enabled P s Next")
    case True
    let ?tp = "totalPages (visible P s) (itemsPerPage s)"
    from True ok have "1 \<le> min ?tp (currentPage s + 1)"
      and "min ?tp (currentPage s + 1) \<le> max 1 ?tp"
      by (simp_all add: page_ok_def)
    with ok have "page_ok P (page_reset_effect P s (s\<lparr>currentPage := min ?tp (currentPage s + 1)\<rparr>))"
      by (rule page_ok_move)
    with True show ?thesis by (auto simp: step_def Next)
  next
    case False
    with ok show ?thesis by (auto simp: step_def Next)
  qed
next
  case (PageButton k)
  assume ok: "page_ok P s"
  show ?thesis
  proof (cases "enabled P s (PageButton k)")
    case True
    let ?tp = "totalPages (visible P s) (itemsPerPage s)"
    from True have tp: "1 < ?tp" "0 \<le> k" "k < min 5 ?tp" by simp_all
    from ok tp have cp: "1 \<le> currentPage s" "currentPage s \<le> ?tp" by (simp_all add: page_ok_def)
    have "1 \<le> pageNum ?tp (currentPage s) k \<and> pageNum ?tp (currentPage s) k \<le> ?tp"
      using tp cp by (intro pageNum_in_range) simp_all
    then have "page_ok P (page_reset_effect P s (s\<lparr>currentPage := pageNum ?tp (currentPage s) k\<rparr>))"
      using ok by (intro page_ok_move) simp_all
    with True show ?thesis by (auto simp: step_def PageButton)
  next
    case False
    with ok show ?thesis by (auto simp: step_def PageButton)
  qed
qed

lemma page_ok_run: "page_ok P (run P intents)"
proof (induction intents rule: rev_induct)
  case Nil
  show ?case
    by (simp add: run_def page_ok_def initial_def visible_def filteredTransactions_def totalPages_def)
next
  case (snoc i intents)
  then show ?case by (simp add: run_snoc page_ok_step)
qed

lemma currentPage_in_range: "spec_page_in_range P (run P intents)"
  using page_ok_run [of P intents]
  by (simp add: page_ok_def spec_page_in_range_def totalPages_def)


text \<open>An intent that changes the number of filtered rows or the page size resets the
  page.\<close>

lemma page_reset_on_count_change:
  "enabled P s i \<Longrightarrow>
   length (visible P (handle P i s)) \<noteq> length (visible P s) \<or>
     itemsPerPage (handle P i s) \<noteq> itemsPerPage s \<Longrightarrow>
   currentPage (step P s i) = 1"
  by (auto simp: step_def page_reset_effect_def)

lemma scenario_before:
  "run sample_platform [SetTransactions overlap_rows, SearchChange ''a'', Next] =
   \<lparr>selectedStatuses = [], dateFrom = None, dateTo = None, searchQuery = ''a'',
    sortField = Timestamp, sortDirection = Desc, currentPage = 2, itemsPerPage = 15,
    transactions = overlap_rows\<rparr>"
  by code_simp

lemma scenario_step:
  "step sample_platform
     \<lparr>selectedStatuses = [], dateFrom = None, dateTo = None, searchQuery = ''a'',
      sortField = Timestamp, sortDirection = Desc, currentPage = 2, itemsPerPage = 15,
      transactions = overlap_rows\<rparr> (SearchChange ''b'') =
   \<lparr>selectedStatuses = [], dateFrom = None, dateTo = None, searchQuery = ''b'',
    sortField = Timestamp, sortDirection = Desc, currentPage = 2, itemsPerPage = 15,
    transactions = overlap_rows\<rparr>"
  by code_simp

lemma scenario_after:
  "run sample_platform [SetTransactions overlap_rows, SearchChange ''a'', Next, SearchChange ''b''] =
   \<lparr>selectedStatuses = [], dateFrom = None, dateTo = None, searchQuery = ''b'',
    sortField = Timestamp, sortDirection = Desc, currentPage = 2, itemsPerPage = 15,
    transactions = overlap_rows\<rparr>"
  using run_snoc [of sample_platform "[SetTransactions overlap_rows, SearchChange ''a'', Next]"
      "SearchChange ''b''"]
  by (simp add: scenario_before scenario_step)

lemma scenario_rows_before:
  "map hash (visible sample_platform
     \<lparr>selectedStatuses = [], dateFrom = None, dateTo = None, searchQuery = ''a'',
      sortField = Timestamp, sortDirection = Desc, currentPage = 2, itemsPerPage = 15,
      transactions = overlap_rows\<rparr>) =
   [''0xab0'', ''0xab1'', ''0xab2'', ''0xab3'', ''0xab4'', ''0xab5'', ''0xab6'', ''0xab7'',
    ''0xab8'', ''0xab9'', ''0xab10'', ''0xab11'', ''0xab12'', ''0xab13'', ''0xab14'', ''0xa'']"
  by code_simp

lemma scenario_rows_after:
  "map hash (visible sample_platform
     \<lparr>selectedStatuses = [], dateFrom = None, dateTo = None, searchQuery = ''b'',
      sortField = Timestamp, sortDirection = Desc, currentPage = 2, itemsPerPage = 15,
      transactions = overlap_rows\<rparr>) =
   [''0xab0'', ''0xab1'', ''0xab2'', ''0xab3'', ''0xab4'', ''0xab5'', ''0xab6'', ''0xab7'',
    ''0xab8'', ''0xab9'', ''0xab10'', ''0xab11'', ''0xab12'', ''0xab13'', ''0xab14'', ''0xb'']"
  by code_simp

text \<open>
  C3. The claim asks that every mutation of a filter criterion resets the page to 1, and
  the comment on the effect says "Reset to page 1 when transactions or itemsPerPage
  change". The effect depends on \<open>transactions.length\<close>, so a mutation that changes the
  filtered rows but not their number leaves the page where it is. Here seventeen
  transactions are loaded, the search \<open>a\<close> leaves sixteen of them, the user goes to page
  2, and the search changes to \<open>b\<close>: sixteen rows remain, \<open>0xb\<close> in place of \<open>0xa\<close>, and the
  page is still 2.
\<close>

theorem page_kept_on_same_count:
  "currentPage (run sample_platform [SetTransactions overlap_rows, SearchChange ''a'', Next]) = 2 \<and>
   mutates_filter (SearchChange ''b'')
     (run sample_platform [SetTransactions overlap_rows, SearchChange ''a'', Next]) \<and>
   currentPage (run sample_platform
     [SetTransactions overlap_rows, SearchChange ''a'', Next, SearchChange ''b'']) = 2 \<and>
   length (visible sample_platform (run sample_platform
     [SetTransactions overlap_rows, SearchChange ''a'', Next])) = 16 \<and>
   length (visible sample_platform (run sample_platform
     [SetTransactions overlap_rows, SearchChange ''a'', Next, SearchChange ''b''])) = 16 \<and>
   ''0xa'' \<in> set (map hash (visible sample_platform (run sample_platform
     [SetTransactions overlap_rows, SearchChange ''a'', Next]))) \<and>
   ''0xa'' \<notin> set (map hash (visible sample_platform (run sample_platform
     [SetTransactions overlap_rows, SearchChange ''a'', Next, SearchChange ''b''])))"
proof -
  let ?before = "run sample_platform [SetTransactions overlap_rows, SearchChange ''a'', Next]"
  let ?after = "run sample_platform
     [SetTransactions overlap_rows, SearchChange ''a'', Next, SearchChange ''b'']"
  have len_before: "length (visible sample_platform ?before) = 16"
    using arg_cong [OF scenario_rows_before, of length] by (simp add: scenario_before)
  have len_after: "length (visible sample_platform ?after) = 16"
    using arg_cong [OF scenario_rows_after, of length] by (simp add: scenario_after)
  have "currentPage ?before = 2" "mutates_filter (SearchChange ''b'') ?before"
    "currentPage ?after = 2"
    by (simp_all add: scenario_before scenario_after)
  moreover have "''0xa'' \<in> set (map hash (visible sample_platform ?before))"
    unfolding scenario_before scenario_rows_before by simp
  moreover have "''0xa'' \<notin> set (map hash (visible sample_platform ?after))"
    unfolding scenario_after scenario_rows_after by simp
  ultimately show ?thesis using len_before len_after by blast
qed

section \<open>Search debounce\<close>



lemma inputValue_advance [simp]: "inputValue (advance t s) = inputValue s"
  by (simp add: advance_def split: option.splits prod.splits)



















text \<open>
  With a click on the clear button in the sequence the filter need not end on the value
  in the input. After \<open>a\<close> has been propagated, a click on the clear button and \<open>a\<close> typed
  again within the window leave \<open>a\<close> in the input and the empty string in the filter: the
  pending timer delivers \<open>a\<close>, which the debounced value already is, so the effect does
  not run.
\<close>

lemma clear_then_retype:
  "input_sequence [] 0 [Keystroke 0 ''a'', ClearClick 400, Keystroke 450 ''a''] \<and>
   propagated (settle (run_events
     [Keystroke 0 ''a'', ClearClick 400, Keystroke 450 ''a''] mounted)) = [(300, ''a''), (400, [])] \<and>
   inputValue (settle (run_events
     [Keystroke 0 ''a'', ClearClick 400, Keystroke 450 ''a''] mounted)) = ''a'' \<and>
   filter_value (settle (run_events
     [Keystroke 0 ''a'', ClearClick 400, Keystroke 450 ''a''] mounted)) = []"
  by code_simp

end
